theory Spec2Isabelle
  imports Main "HOL-Library.Sublist"
begin

section \<open>The Bored API widget (src/bored-api.py)\<close>

text \<open>
  The widget is modelled by the attributes the query methods read and write: the text of
  the line edits (the key field and the three dictionaries of per-parameter fields), and
  the output layout on the right. Python dictionaries keep insertion order, which the
  loop of \<open>query_multi\<close> observes, so they are association lists. Methods whose Python
  name starts with an underscore (\<open>_query\<close>, \<open>_cleanup\<close>, \<open>_display_error\<close>,
  \<open>_add_param_entry\<close>) drop it here.
\<close>

subsection \<open>Constants and data\<close>

definition BORED_API_URL :: string where
  "BORED_API_URL = ''http://bored.api.lewagon.com/api/activity/''"

text \<open>
  An item of a Qt layout is a widget (here always a \<open>QLabel\<close>, kept as its text) or a
  nested layout, for which \<open>widget()\<close> returns \<open>None\<close>.
\<close>

datatype layout_item = WidgetItem string | LayoutItem "layout_item list"

record widget =
  key_input_field :: string
  d_multi_input_fields :: "(string \<times> string) list"
  d_multi_input_min_fields :: "(string \<times> string) list"
  d_multi_input_max_fields :: "(string \<times> string) list"
  output_layout :: "layout_item list"
  deleted :: "string list"

text \<open>
  \<open>deleted\<close> lists the labels on which \<open>deleteLater()\<close> was called, in call order.
  Exceptions the Python can raise:
\<close>

datatype fault = KeyError | RequestException | JSONDecodeError | AttributeError

text \<open>\<open>d[k] = v\<close> on an insertion-ordered dictionary.\<close>

fun dict_set :: "'k \<Rightarrow> 'v \<Rightarrow> ('k \<times> 'v) list \<Rightarrow> ('k \<times> 'v) list" where
  "dict_set k v [] = [(k, v)]"
| "dict_set k v ((k', v') # d) =
     (if k' = k then (k', v) # d else (k', v') # dict_set k v d)"

subsection \<open>Python values, as \<open>response.json()\<close> returns them\<close>

text \<open>
  Floats are kept abstract (type \<open>'f\<close>). What the program observes of a float, and the
  \<open>repr\<close> of a string, belong to the Python library, not to this repository: they are
  the parameters \<open>float_nonzero\<close>, \<open>float_repr\<close> and \<open>str_repr\<close>.
\<close>

datatype 'f pyval =
    PNone
  | PBool bool
  | PInt int
  | PFloat 'f
  | PStr string
  | PList "'f pyval list"
  | PDict "(string \<times> 'f pyval) list"

record 'f pylib =
  float_nonzero :: "'f \<Rightarrow> bool"
  float_repr :: "'f \<Rightarrow> string"
  str_repr :: "string \<Rightarrow> string"

definition digit_char :: "nat \<Rightarrow> char" where
  "digit_char d = char_of (48 + d)"

function show_nat :: "nat \<Rightarrow> string" where
  "show_nat n = (if n < 10 then [digit_char n] else show_nat (n div 10) @ [digit_char (n mod 10)])"
  by pat_completeness auto
termination
  by (relation "measure id") auto

declare show_nat.simps [simp del]

definition show_int :: "int \<Rightarrow> string" where
  "show_int i = (if i < 0 then CHR ''-'' # show_nat (nat (- i)) else show_nat (nat i))"

fun join :: "string \<Rightarrow> string list \<Rightarrow> string" where
  "join sep [] = []"
| "join sep [x] = x"
| "join sep (x # y # ys) = x @ sep @ join sep (y # ys)"

fun py_repr :: "'f pylib \<Rightarrow> 'f pyval \<Rightarrow> string" where
  "py_repr L PNone = ''None''"
| "py_repr L (PBool b) = (if b then ''True'' else ''False'')"
| "py_repr L (PInt i) = show_int i"
| "py_repr L (PFloat x) = float_repr L x"
| "py_repr L (PStr s) = str_repr L s"
| "py_repr L (PList xs) = ''['' @ join '', '' (map (py_repr L) xs) @ '']''"
| "py_repr L (PDict kvs) =
     ''{'' @ join '', '' (map (\<lambda>kv. str_repr L (fst kv) @ '': '' @ py_repr L (snd kv)) kvs) @ ''}''"

text \<open>\<open>f"{v}"\<close> is \<open>str(v)\<close>: a string is shown as it is, anything else as its \<open>repr\<close>.\<close>

fun py_str :: "'f pylib \<Rightarrow> 'f pyval \<Rightarrow> string" where
  "py_str L (PStr s) = s"
| "py_str L v = py_repr L v"

text \<open>Truth value of \<open>if v:\<close>.\<close>

fun truthy :: "'f pylib \<Rightarrow> 'f pyval \<Rightarrow> bool" where
  "truthy L PNone = False"
| "truthy L (PBool b) = b"
| "truthy L (PInt i) = (i \<noteq> 0)"
| "truthy L (PFloat x) = float_nonzero L x"
| "truthy L (PStr s) = (s \<noteq> [])"
| "truthy L (PList xs) = (xs \<noteq> [])"
| "truthy L (PDict kvs) = (kvs \<noteq> [])"

text \<open>\<open>d.get(key)\<close>: only a dictionary has the method.\<close>

fun py_get :: "'f pyval \<Rightarrow> string \<Rightarrow> fault + 'f pyval" where
  "py_get (PDict kvs) key = Inr (case map_of kvs key of None \<Rightarrow> PNone | Some v \<Rightarrow> v)"
| "py_get _ key = Inl AttributeError"

fun py_items :: "'f pyval \<Rightarrow> fault + (string \<times> 'f pyval) list" where
  "py_items (PDict kvs) = Inr kvs"
| "py_items _ = Inl AttributeError"

subsection \<open>The network\<close>

text \<open>
  A response has its status code and what \<open>response.json()\<close> does when called: \<open>None\<close>
  when the body is not JSON (the call raises). \<open>requests.get\<close> is a parameter of the
  query methods, a function from the URL to the response, \<open>None\<close> when the transport
  fails (the call raises).
\<close>

record 'f response =
  status_code :: int
  json :: "'f pyval option"

type_synonym 'f requests_get = "string \<Rightarrow> 'f response option"

text \<open>
  What a slot leaves behind: the widget, the URLs \<open>requests.get\<close> was called with, whether
  \<open>response.json()\<close> was called, and the exception that left the method, if any.
\<close>

record outcome =
  self :: widget
  requested :: "string list"
  json_called :: bool
  raised :: "fault option"

subsection \<open>Construction of the form\<close>

text \<open>Every new \<open>QLineEdit\<close> is empty. \<open>allow_range\<close> only decides whether the range row is shown.\<close>

definition add_param_entry :: "string \<Rightarrow> bool \<Rightarrow> widget \<Rightarrow> widget" where
  "add_param_entry input_name allow_range w =
     w\<lparr>d_multi_input_fields := dict_set input_name [] (d_multi_input_fields w),
       d_multi_input_min_fields := dict_set input_name [] (d_multi_input_min_fields w),
       d_multi_input_max_fields := dict_set input_name [] (d_multi_input_max_fields w)\<rparr>"

definition init :: widget where
  "init =
     add_param_entry ''accessibility'' True
       (add_param_entry ''price'' True
         (add_param_entry ''participants'' True
           (add_param_entry ''type'' False
             \<lparr>key_input_field = [], d_multi_input_fields = [], d_multi_input_min_fields = [],
              d_multi_input_max_fields = [], output_layout = [], deleted = []\<rparr>)))"

subsection \<open>Clearing the fields\<close>

text \<open>
  \<open>_clear\<close>: the key field, then the three fields of every key of \<open>d_multi_input_fields\<close>.
  A field is reached by a subscript, which raises \<open>KeyError\<close> when the key is missing.
\<close>

fun clear_loop :: "string list \<Rightarrow> widget \<Rightarrow> fault + widget" where
  "clear_loop [] w = Inr w"
| "clear_loop (input_name # names) w =
     (if map_of (d_multi_input_fields w) input_name = None then Inl KeyError
      else
        (let w1 = w\<lparr>d_multi_input_fields := dict_set input_name [] (d_multi_input_fields w)\<rparr>
         in if map_of (d_multi_input_min_fields w1) input_name = None then Inl KeyError
            else
              (let w2 = w1\<lparr>d_multi_input_min_fields :=
                              dict_set input_name [] (d_multi_input_min_fields w1)\<rparr>
               in if map_of (d_multi_input_max_fields w2) input_name = None then Inl KeyError
                  else clear_loop names
                         (w2\<lparr>d_multi_input_max_fields :=
                                dict_set input_name [] (d_multi_input_max_fields w2)\<rparr>))))"

definition clear :: "widget \<Rightarrow> fault + widget" where
  "clear w =
     (let w1 = w\<lparr>key_input_field := []\<rparr>
      in clear_loop (map fst (d_multi_input_fields w1)) w1)"

subsection \<open>Clearing the output\<close>

text \<open>The inner loop of \<open>_cleanup\<close>, over the items of a nested layout.\<close>

fun cleanup_child :: "layout_item list \<Rightarrow> string list \<Rightarrow> string list" where
  "cleanup_child [] del = del"
| "cleanup_child (WidgetItem t # child) del = cleanup_child child (del @ [t])"
| "cleanup_child (LayoutItem c # child) del = cleanup_child child del"

text \<open>The outer loop: \<open>while self.output_layout.count(): child = takeAt(0) ...\<close>.\<close>

function cleanup :: "widget \<Rightarrow> widget" where
  "cleanup w =
     (if output_layout w = [] then w
      else (case hd (output_layout w) of
              WidgetItem t \<Rightarrow>
                cleanup (w\<lparr>output_layout := tl (output_layout w), deleted := deleted w @ [t]\<rparr>)
            | LayoutItem child \<Rightarrow>
                cleanup (w\<lparr>output_layout := tl (output_layout w),
                           deleted := cleanup_child child (deleted w)\<rparr>)))"
  by pat_completeness auto
termination
  by (relation "measure (\<lambda>w. length (output_layout w))") auto

declare cleanup.simps [simp del]

text \<open>
  The labels \<open>_cleanup\<close> reaches: those at the top of the layout and those one level
  down ("only to the depth necessary", as its docstring says).
\<close>

fun child_labels :: "layout_item list \<Rightarrow> string list" where
  "child_labels [] = []"
| "child_labels (WidgetItem t # child) = t # child_labels child"
| "child_labels (LayoutItem c # child) = child_labels child"

fun scheduled :: "layout_item list \<Rightarrow> string list" where
  "scheduled [] = []"
| "scheduled (WidgetItem t # rest) = t # scheduled rest"
| "scheduled (LayoutItem child # rest) = child_labels child @ scheduled rest"

text \<open>The text of the label \<open>_display_error\<close> builds (\<open>CHR 0x27\<close> is the single quote).\<close>

definition error_label :: "string \<Rightarrow> string" where
  "error_label message =
     ''<span style='' @ [CHR 0x27] @ ''color:red;'' @ [CHR 0x27] @ ''>ERROR: '' @ message @ ''</span>''"

definition display_error :: "string \<Rightarrow> widget \<Rightarrow> widget" where
  "display_error message w =
     w\<lparr>output_layout := output_layout w @ [WidgetItem (error_label message)]\<rparr>"

subsection \<open>Running a query\<close>

text \<open>The last loop of \<open>_query\<close>: \<open>addRow\<close> puts a label item and a field item in the layout.\<close>

fun add_rows :: "'f pylib \<Rightarrow> (string \<times> 'f pyval) list \<Rightarrow> widget \<Rightarrow> widget" where
  "add_rows L [] w = w"
| "add_rows L ((key, val) # items) w =
     add_rows L items
       (w\<lparr>output_layout := output_layout w @ [WidgetItem (key @ '':''), WidgetItem (py_str L val)]\<rparr>)"

definition query :: "'f pylib \<Rightarrow> 'f requests_get \<Rightarrow> string \<Rightarrow> widget \<Rightarrow> outcome" where
  "query L get q w =
     (case get q of
        None \<Rightarrow> \<lparr>self = w, requested = [q], json_called = False, raised = Some RequestException\<rparr>
      | Some response \<Rightarrow>
          if status_code response \<noteq> 200 then
            \<lparr>self = display_error (''API request failed: '' @ show_int (status_code response)) w,
             requested = [q], json_called = False, raised = None\<rparr>
          else
            (case json response of
               None \<Rightarrow> \<lparr>self = w, requested = [q], json_called = True, raised = Some JSONDecodeError\<rparr>
             | Some d_response \<Rightarrow>
                 (case py_get d_response ''error'' of
                    Inl e \<Rightarrow> \<lparr>self = w, requested = [q], json_called = True, raised = Some e\<rparr>
                  | Inr error_message \<Rightarrow>
                      if truthy L error_message then
                        \<lparr>self = display_error
                                  (''API request returned error: '' @ py_str L error_message) w,
                         requested = [q], json_called = True, raised = None\<rparr>
                      else
                        (case py_items d_response of
                           Inl e \<Rightarrow> \<lparr>self = w, requested = [q], json_called = True, raised = Some e\<rparr>
                         | Inr items \<Rightarrow>
                             \<lparr>self = add_rows L items w, requested = [q], json_called = True,
                              raised = None\<rparr>))))"

definition query_random :: "'f pylib \<Rightarrow> 'f requests_get \<Rightarrow> widget \<Rightarrow> outcome" where
  "query_random L get w = query L get BORED_API_URL (cleanup w)"

definition query_key :: "'f pylib \<Rightarrow> 'f requests_get \<Rightarrow> widget \<Rightarrow> outcome" where
  "query_key L get w =
     (let w1 = cleanup w; key = key_input_field w1 in
      if key = [] then
        \<lparr>self = display_error ''No key provided'' w1, requested = [], json_called = False,
         raised = None\<rparr>
      else query L get (BORED_API_URL @ ''?key='' @ key) w1)"

text \<open>
  The loop of \<open>query_multi\<close> over the keys of \<open>d_multi_input_fields\<close>, with the tail built
  so far. A subscript on a dictionary without the key raises \<open>KeyError\<close>.
\<close>

fun query_multi_loop :: "widget \<Rightarrow> string list \<Rightarrow> string \<Rightarrow> fault + string" where
  "query_multi_loop w [] query_tail = Inr query_tail"
| "query_multi_loop w (input_name # names) query_tail =
     (case map_of (d_multi_input_fields w) input_name of
        None \<Rightarrow> Inl KeyError
      | Some val \<Rightarrow>
          if val \<noteq> [] then
            query_multi_loop w names (query_tail @ input_name @ ''='' @ val @ ''&'')
          else
            (case map_of (d_multi_input_min_fields w) input_name of
               None \<Rightarrow> Inl KeyError
             | Some min_value \<Rightarrow>
                 (let query_tail1 =
                        (if min_value \<noteq> [] then
                           query_tail @ ''min'' @ input_name @ ''='' @ min_value @ ''&''
                         else query_tail)
                  in case map_of (d_multi_input_max_fields w) input_name of
                       None \<Rightarrow> Inl KeyError
                     | Some max_value \<Rightarrow>
                         query_multi_loop w names
                           (if max_value \<noteq> [] then
                              query_tail1 @ ''max'' @ input_name @ ''='' @ max_value @ ''&''
                            else query_tail1))))"

definition query_multi :: "'f pylib \<Rightarrow> 'f requests_get \<Rightarrow> widget \<Rightarrow> outcome" where
  "query_multi L get w =
     (let w1 = cleanup w in
      case query_multi_loop w1 (map fst (d_multi_input_fields w1)) [] of
        Inl e \<Rightarrow> \<lparr>self = w1, requested = [], json_called = False, raised = Some e\<rparr>
      | Inr query_tail \<Rightarrow> query L get (BORED_API_URL @ ''?'' @ query_tail) w1)"

subsection \<open>Vocabulary of the properties\<close>

text \<open>
  The names \<open>__init__\<close> registers, in registration order, and the widgets whose three
  dictionaries hold exactly these keys in this order: every widget the user can reach,
  since typing changes the text of a field and never the keys.
\<close>

definition param_names :: "string list" where
  "param_names = [''type'', ''participants'', ''price'', ''accessibility'']"

definition fields_ok :: "widget \<Rightarrow> bool" where
  "fields_ok w \<longleftrightarrow>
     map fst (d_multi_input_fields w) = param_names \<and>
     map fst (d_multi_input_min_fields w) = param_names \<and>
     map fst (d_multi_input_max_fields w) = param_names"

text \<open>The text of the field of a parameter in one of the dictionaries.\<close>

definition text_of :: "(string \<times> string) list \<Rightarrow> string \<Rightarrow> string" where
  "text_of d name = (case map_of d name of None \<Rightarrow> [] | Some t \<Rightarrow> t)"

text \<open>
  The specification's rule for one parameter (section 4.1, ByParameters): the exact value
  if there is one, otherwise whichever of the minimum and the maximum is there. It is
  written after the specification, as the list of fragments the parameter contributes;
  each fragment is followed by the separator.
\<close>

definition spec_pieces :: "string \<Rightarrow> string \<Rightarrow> string \<Rightarrow> string \<Rightarrow> string list" where
  "spec_pieces name exact min_value max_value =
     (if exact \<noteq> [] then [name @ ''='' @ exact]
      else (if min_value \<noteq> [] then [''min'' @ name @ ''='' @ min_value] else []) @
           (if max_value \<noteq> [] then [''max'' @ name @ ''='' @ max_value] else []))"

definition pieces :: "widget \<Rightarrow> string \<Rightarrow> string list" where
  "pieces w name =
     spec_pieces name (text_of (d_multi_input_fields w) name)
       (text_of (d_multi_input_min_fields w) name) (text_of (d_multi_input_max_fields w) name)"

definition contribution :: "widget \<Rightarrow> string \<Rightarrow> string" where
  "contribution w name = concat (map (\<lambda>p. p @ ''&'') (pieces w name))"

text \<open>
  Reading a URL back: the query part is what follows the first question mark, and its
  fragments are the pieces between the separators, as \<open>str.split\<close> gives them.
\<close>

fun split_on :: "char \<Rightarrow> string \<Rightarrow> string list" where
  "split_on c [] = [[]]"
| "split_on c (x # xs) =
     (if x = c then [] # split_on c xs
      else (case split_on c xs of [] \<Rightarrow> [[x]] | y # ys \<Rightarrow> (x # y) # ys))"

definition query_part :: "string \<Rightarrow> string" where
  "query_part url = (case dropWhile (\<lambda>c. c \<noteq> CHR ''?'') url of [] \<Rightarrow> [] | q # t \<Rightarrow> t)"

definition fragments :: "string \<Rightarrow> string list" where
  "fragments url = split_on (CHR ''&'') (query_part url)"

definition amp_free :: "string \<Rightarrow> bool" where
  "amp_free s \<longleftrightarrow> CHR ''&'' \<notin> set s"

text \<open>
  The field values of a parameter that the builder can put into the string: the exact
  value when there is one, the minimum and the maximum otherwise.
\<close>

definition interpolated :: "widget \<Rightarrow> string \<Rightarrow> string list" where
  "interpolated w name =
     (if text_of (d_multi_input_fields w) name \<noteq> [] then [text_of (d_multi_input_fields w) name]
      else [text_of (d_multi_input_min_fields w) name, text_of (d_multi_input_max_fields w) name])"

definition all_empty :: "widget \<Rightarrow> bool" where
  "all_empty w \<longleftrightarrow>
     list_all (\<lambda>kv. snd kv = []) (d_multi_input_fields w) \<and>
     list_all (\<lambda>kv. snd kv = []) (d_multi_input_min_fields w) \<and>
     list_all (\<lambda>kv. snd kv = []) (d_multi_input_max_fields w)"

text \<open>The items \<open>_query\<close> shows for the pairs of a response, two for each pair.\<close>

definition rendered :: "'f pylib \<Rightarrow> (string \<times> 'f pyval) list \<Rightarrow> layout_item list" where
  "rendered L kvs =
     concat (map (\<lambda>kv. [WidgetItem (fst kv @ '':''), WidgetItem (py_str L (snd kv))]) kvs)"

subsection \<open>Sample inputs\<close>

text \<open>The user types a text into a field of the form.\<close>

definition type_exact :: "string \<Rightarrow> string \<Rightarrow> widget \<Rightarrow> widget" where
  "type_exact name t w = w\<lparr>d_multi_input_fields := dict_set name t (d_multi_input_fields w)\<rparr>"

definition type_min :: "string \<Rightarrow> string \<Rightarrow> widget \<Rightarrow> widget" where
  "type_min name t w = w\<lparr>d_multi_input_min_fields := dict_set name t (d_multi_input_min_fields w)\<rparr>"

definition type_max :: "string \<Rightarrow> string \<Rightarrow> widget \<Rightarrow> widget" where
  "type_max name t w = w\<lparr>d_multi_input_max_fields := dict_set name t (d_multi_input_max_fields w)\<rparr>"

definition type_key :: "string \<Rightarrow> widget \<Rightarrow> widget" where
  "type_key t w = w\<lparr>key_input_field := t\<rparr>"

definition sample_exact :: widget where
  "sample_exact =
     type_max ''price'' ''0.9'' (type_min ''price'' ''0&1'' (type_exact ''price'' ''0.5'' init))"

definition amp_in_exact :: widget where
  "amp_in_exact = type_exact ''price'' ''1&minprice=2'' init"

definition sample_min :: widget where
  "sample_min = type_min ''price'' ''0.2'' (type_exact ''type'' ''education'' init)"

definition amp_in_min :: widget where
  "amp_in_min = type_min ''price'' ''2&price=3'' init"

definition sample_mixed :: widget where
  "sample_mixed =
     type_min ''accessibility'' ''0.3''
       (type_exact ''accessibility'' ''0.1''
         (type_max ''price'' ''0.5''
           (type_min ''participants'' ''2''
             (type_max ''participants'' ''4'' (type_exact ''type'' ''recreational'' init)))))"

text \<open>A form with the rows of an earlier answer still in the output layout.\<close>

definition sample_stale :: widget where
  "sample_stale =
     init\<lparr>output_layout := [WidgetItem ''activity:'', WidgetItem ''Learn a new language'',
                               LayoutItem [WidgetItem ''nested'']]\<rparr>"

definition sample_body :: "unit pyval" where
  "sample_body =
     PDict [(''activity'', PStr ''Learn a new language''), (''type'', PStr ''education''),
            (''participants'', PInt 1), (''error'', PNone)]"

definition error_body :: "unit pyval" where
  "error_body = PDict [(''error'', PStr ''Not enough parameters'')]"

text \<open>A library instance for responses without floats and nested strings.\<close>

definition sample_lib :: "unit pylib" where
  "sample_lib = \<lparr>float_nonzero = (\<lambda>x. False), float_repr = (\<lambda>x. ''0.0''),
                  str_repr = (\<lambda>s. [CHR 0x27] @ s @ [CHR 0x27])\<rparr>"

text \<open>Networks: one that fails, one that answers a status with no JSON body, one that answers 200 with a body.\<close>

definition get_fails :: "unit requests_get" where
  "get_fails q = None"

definition get_status :: "int \<Rightarrow> unit requests_get" where
  "get_status n q = Some \<lparr>status_code = n, json = None\<rparr>"

definition get_json :: "unit pyval \<Rightarrow> unit requests_get" where
  "get_json v q = Some \<lparr>status_code = 200, json = Some v\<rparr>"


section \<open>Properties\<close>

subsection \<open>Clearing\<close>

lemma cleanup_child_eq: "cleanup_child child del = del @ child_labels child"
  by (induction child del rule: cleanup_child.induct) simp_all

lemma cleanup_eq:
  "cleanup w = w\<lparr>output_layout := [], deleted := deleted w @ scheduled (output_layout w)\<rparr>"
proof (induction w rule: cleanup.induct)
  case (1 w)
  show ?case
  proof (cases "output_layout w")
    case Nil
    then show ?thesis by (subst cleanup.simps) simp
  next
    case (Cons item rest)
    show ?thesis
    proof (cases item)
      case (WidgetItem t)
      with Cons 1(1)[of t] show ?thesis
        by (subst cleanup.simps) simp
    next
      case (LayoutItem child)
      with Cons 1(2)[of child] show ?thesis
        by (subst cleanup.simps) (simp add: cleanup_child_eq)
    qed
  qed
qed

lemma cleanup_output [simp]: "output_layout (cleanup w) = []"
  by (subst cleanup_eq) simp

lemma cleanup_fields [simp]:
  "key_input_field (cleanup w) = key_input_field w"
  "d_multi_input_fields (cleanup w) = d_multi_input_fields w"
  "d_multi_input_min_fields (cleanup w) = d_multi_input_min_fields w"
  "d_multi_input_max_fields (cleanup w) = d_multi_input_max_fields w"
  by (subst cleanup_eq, simp)+

subsection \<open>The loop of the builder\<close>

lemma contribution_simps:
  "contribution w name =
     (if text_of (d_multi_input_fields w) name \<noteq> []
      then name @ ''='' @ text_of (d_multi_input_fields w) name @ ''&''
      else (if text_of (d_multi_input_min_fields w) name \<noteq> []
            then ''min'' @ name @ ''='' @ text_of (d_multi_input_min_fields w) name @ ''&''
            else []) @
           (if text_of (d_multi_input_max_fields w) name \<noteq> []
            then ''max'' @ name @ ''='' @ text_of (d_multi_input_max_fields w) name @ ''&''
            else []))"
  by (simp add: contribution_def pieces_def spec_pieces_def)

lemma query_multi_loop_step:
  assumes "map_of (d_multi_input_fields w) n \<noteq> None"
    and "map_of (d_multi_input_min_fields w) n \<noteq> None"
    and "map_of (d_multi_input_max_fields w) n \<noteq> None"
  shows "query_multi_loop w (n # ns) acc = query_multi_loop w ns (acc @ contribution w n)"
  using assms by (auto simp: contribution_simps text_of_def Let_def)

lemma query_multi_loop_eq:
  assumes "set ns \<subseteq> fst ` set (d_multi_input_fields w)"
    and "set ns \<subseteq> fst ` set (d_multi_input_min_fields w)"
    and "set ns \<subseteq> fst ` set (d_multi_input_max_fields w)"
  shows "query_multi_loop w ns acc = Inr (acc @ concat (map (contribution w) ns))"
  using assms
proof (induction ns arbitrary: acc)
  case Nil
  then show ?case by simp
next
  case (Cons n ns)
  from Cons.prems have "map_of (d_multi_input_fields w) n \<noteq> None"
    "map_of (d_multi_input_min_fields w) n \<noteq> None"
    "map_of (d_multi_input_max_fields w) n \<noteq> None"
    by (auto simp: map_of_eq_None_iff)
  then have "query_multi_loop w (n # ns) acc = query_multi_loop w ns (acc @ contribution w n)"
    by (rule query_multi_loop_step)
  with Cons show ?case by simp
qed

lemma query_multi_eq:
  assumes "fields_ok w"
  shows "query_multi L get w =
         query L get (BORED_API_URL @ ''?'' @ concat (map (contribution w) param_names)) (cleanup w)"
proof -
  have keys: "map fst (d_multi_input_fields (cleanup w)) = param_names"
    "map fst (d_multi_input_min_fields (cleanup w)) = param_names"
    "map fst (d_multi_input_max_fields (cleanup w)) = param_names"
    using assms by (simp_all add: fields_ok_def)
  have sub: "set param_names \<subseteq> fst ` set (d_multi_input_fields (cleanup w))"
    "set param_names \<subseteq> fst ` set (d_multi_input_min_fields (cleanup w))"
    "set param_names \<subseteq> fst ` set (d_multi_input_max_fields (cleanup w))"
    by (metis keys(1) set_map subset_refl, metis keys(2) set_map subset_refl,
        metis keys(3) set_map subset_refl)
  have c: "contribution (cleanup w) = contribution w"
    by (rule ext) (simp add: contribution_def pieces_def)
  have "query_multi_loop (cleanup w) param_names [] = Inr (concat (map (contribution w) param_names))"
    using query_multi_loop_eq[OF sub, of "[]"] by (simp add: c)
  with keys(1) show ?thesis
    by (simp add: query_multi_def Let_def)
qed

lemma query_requested [simp]: "requested (query L get q w) = [q]"
  by (simp add: query_def split: option.splits sum.splits)

subsection \<open>Fragments of the built string\<close>

lemma split_on_piece:
  "c \<notin> set p \<Longrightarrow> split_on c (p @ c # rest) = p # split_on c rest"
  by (induction p) auto

lemma split_on_pieces:
  "list_all (\<lambda>p. c \<notin> set p) ps \<Longrightarrow>
   split_on c (concat (map (\<lambda>p. p @ [c]) ps) @ rest) = ps @ split_on c rest"
  by (induction ps) (auto simp: split_on_piece)

lemma query_part_url [simp]: "query_part (BORED_API_URL @ CHR ''?'' # t) = t"
  by (simp add: query_part_def BORED_API_URL_def)

lemma concat_contribution:
  "concat (map (contribution w) ns) = concat (map (\<lambda>p. p @ ''&'') (concat (map (pieces w) ns)))"
  by (induction ns) (simp_all add: contribution_def)

lemma fragments_multi:
  assumes "list_all amp_free (concat (map (pieces w) ns))"
  shows "fragments (BORED_API_URL @ ''?'' @ concat (map (contribution w) ns)) =
         concat (map (pieces w) ns) @ [[]]"
proof -
  have "list_all (\<lambda>p. CHR ''&'' \<notin> set p) (concat (map (pieces w) ns))"
    using assms by (simp add: amp_free_def[abs_def])
  from split_on_pieces[OF this, of "[]"] show ?thesis
    by (simp add: fragments_def concat_contribution)
qed

lemma amp_free_pieces:
  assumes "name \<in> set param_names" and "list_all amp_free (interpolated w name)"
  shows "list_all amp_free (pieces w name)"
  using assms
  by (auto simp: param_names_def pieces_def spec_pieces_def interpolated_def amp_free_def
      split: if_splits)

lemma amp_free_all_pieces:
  assumes "list_all amp_free (concat (map (interpolated w) param_names))"
  shows "list_all amp_free (concat (map (pieces w) param_names))"
proof -
  have "\<forall>n \<in> set param_names. list_all amp_free (pieces w n)"
    using assms amp_free_pieces by (auto simp: list_all_iff)
  then show ?thesis by (auto simp: list_all_iff)
qed

lemma param_cases:
  assumes "name \<in> set param_names"
  obtains "name = ''type''" | "name = ''participants''" | "name = ''price''"
    | "name = ''accessibility''"
  using assms by (auto simp: param_names_def)

lemma other_pieces:
  assumes "name \<in> set param_names" "n \<in> set param_names" "n \<noteq> name"
  shows "\<not> list_ex (prefix (name @ ''='')) (spec_pieces n e mn mx) \<and>
     \<not> list_ex (prefix (''min'' @ name @ ''='')) (spec_pieces n e mn mx) \<and>
     \<not> list_ex (prefix (''max'' @ name @ ''='')) (spec_pieces n e mn mx)"
proof (rule param_cases[OF assms(1)]; rule param_cases[OF assms(2)])
qed (use assms(3) in \<open>simp_all add: spec_pieces_def\<close>)

lemma own_pieces_exact:
  assumes "name \<in> set param_names" "e \<noteq> []"
  shows "spec_pieces name e mn mx = [name @ ''='' @ e]"
    and "\<not> prefix (''min'' @ name @ ''='') (name @ ''='' @ e)"
    and "\<not> prefix (''max'' @ name @ ''='') (name @ ''='' @ e)"
proof -
  show "spec_pieces name e mn mx = [name @ ''='' @ e]"
    using assms(2) by (simp add: spec_pieces_def)
  show "\<not> prefix (''min'' @ name @ ''='') (name @ ''='' @ e)"
    by (rule param_cases[OF assms(1)]) simp_all
  show "\<not> prefix (''max'' @ name @ ''='') (name @ ''='' @ e)"
    by (rule param_cases[OF assms(1)]) simp_all
qed

lemma own_pieces_min:
  assumes "name \<in> set param_names" "v \<noteq> []"
  shows "spec_pieces name [] v [] = [''min'' @ name @ ''='' @ v]"
    and "\<not> prefix (name @ ''='') (''min'' @ name @ ''='' @ v)"
    and "\<not> prefix (''max'' @ name @ ''='') (''min'' @ name @ ''='' @ v)"
proof -
  show "spec_pieces name [] v [] = [''min'' @ name @ ''='' @ v]"
    using assms(2) by (simp add: spec_pieces_def)
  show "\<not> prefix (name @ ''='') (''min'' @ name @ ''='' @ v)"
    by (rule param_cases[OF assms(1)]) simp_all
  show "\<not> prefix (''max'' @ name @ ''='') (''min'' @ name @ ''='' @ v)"
    by simp
qed

lemma fields_ok_name:
  assumes "fields_ok w" "map_of (d_multi_input_fields w) name = Some v"
  shows "name \<in> set param_names"
proof -
  from assms(2) have "(name, v) \<in> set (d_multi_input_fields w)" by (rule map_of_SomeD)
  then have "name \<in> set (map fst (d_multi_input_fields w))" by force
  with assms(1) show ?thesis by (simp add: fields_ok_def)
qed

lemma list_ex_pieces:
  "list_ex P (concat (map (pieces w) ns) @ [[]]) \<longleftrightarrow>
   (\<exists>n \<in> set ns. list_ex P (pieces w n)) \<or> P []"
  by (auto simp: list_ex_iff)


subsection \<open>Exact value before range\<close>

text \<open>
  Values are put into the string as they are typed. With an exact price of
  \<open>1&minprice=2\<close> and nothing else filled in, the string requested is
  \<open>...?price=1&minprice=2&\<close>: it has the fragment \<open>minprice=2\<close> although the price has an
  exact value, and \<open>price=1&minprice=2\<close> is not one of its fragments.
\<close>

theorem exact_precedence_counterexample:
  "fields_ok amp_in_exact \<and>
   map_of (d_multi_input_fields amp_in_exact) ''price'' = Some ''1&minprice=2'' \<and>
   requested (query_multi sample_lib get_fails amp_in_exact) =
     [''http://bored.api.lewagon.com/api/activity/?price=1&minprice=2&''] \<and>
   fragments ''http://bored.api.lewagon.com/api/activity/?price=1&minprice=2&'' =
     [''price=1'', ''minprice=2'', []] \<and>
   sublist ''minprice='' ''http://bored.api.lewagon.com/api/activity/?price=1&minprice=2&''"
  by code_simp

text \<open>
  C1 (amended). The form is as \<open>__init__\<close> built it, the parameter \<open>name\<close> has the
  non-empty exact value \<open>v\<close>, and no value the builder puts into the string contains the
  separator \<open>&\<close> (the minimum and maximum of \<open>name\<close> itself are not among these values,
  so they are unrestricted). Then \<open>query_multi\<close> requests one URL; the fragments of its
  query part, split at \<open>&\<close>, include \<open>name=v\<close>, and none of them begins with \<open>minname=\<close> or
  with \<open>maxname=\<close>.
\<close>

theorem exact_precedence:
  assumes ok: "fields_ok w"
    and ex: "map_of (d_multi_input_fields w) name = Some v" "v \<noteq> []"
    and amp: "list_all amp_free (concat (map (interpolated w) param_names))"
  shows "\<exists>url. requested (query_multi L get w) = [url] \<and>
           name @ ''='' @ v \<in> set (fragments url) \<and>
           \<not> list_ex (prefix (''min'' @ name @ ''='')) (fragments url) \<and>
           \<not> list_ex (prefix (''max'' @ name @ ''='')) (fragments url)"
proof -
  let ?url = "BORED_API_URL @ ''?'' @ concat (map (contribution w) param_names)"
  have name: "name \<in> set param_names" using ok ex(1) by (rule fields_ok_name)
  have req: "requested (query_multi L get w) = [?url]"
    by (simp add: query_multi_eq[OF ok])
  have frs: "fragments ?url = concat (map (pieces w) param_names) @ [[]]"
    by (rule fragments_multi) (rule amp_free_all_pieces[OF amp])
  have own: "pieces w name = [name @ ''='' @ v]"
    using own_pieces_exact(1)[OF name ex(2)] ex(1) by (simp add: pieces_def text_of_def)
  have mem: "name @ ''='' @ v \<in> set (fragments ?url)"
    unfolding frs using name own by (simp del: append.simps) force
  have nomin: "\<not> list_ex (prefix (''min'' @ name @ ''='')) (pieces w n)"
    if "n \<in> set param_names" for n
  proof (cases "n = name")
    case True
    then show ?thesis
      using own own_pieces_exact(2)[OF name ex(2)] by (simp del: append.simps)
  next
    case False
    then show ?thesis
      using other_pieces[OF name that] by (simp add: pieces_def del: append.simps)
  qed
  have nomax: "\<not> list_ex (prefix (''max'' @ name @ ''='')) (pieces w n)"
    if "n \<in> set param_names" for n
  proof (cases "n = name")
    case True
    then show ?thesis
      using own own_pieces_exact(3)[OF name ex(2)] by (simp del: append.simps)
  next
    case False
    then show ?thesis
      using other_pieces[OF name that] by (simp add: pieces_def del: append.simps)
  qed
  have "\<not> list_ex (prefix (''min'' @ name @ ''='')) (fragments ?url)"
    "\<not> list_ex (prefix (''max'' @ name @ ''='')) (fragments ?url)"
    unfolding frs list_ex_pieces using nomin nomax by (simp_all del: append.simps)
  with req mem show ?thesis by blast
qed

text \<open>
  An instance: the exact price 0.5 with the range \<open>0&1\<close> to 0.9 typed as well.
\<close>

theorem exact_precedence_witness:
  "fields_ok sample_exact \<and>
   map_of (d_multi_input_fields sample_exact) ''price'' = Some ''0.5'' \<and>
   map_of (d_multi_input_min_fields sample_exact) ''price'' = Some ''0&1'' \<and>
   map_of (d_multi_input_max_fields sample_exact) ''price'' = Some ''0.9'' \<and>
   list_all amp_free (concat (map (interpolated sample_exact) param_names)) \<and>
   (\<exists>url. requested (query_multi sample_lib get_fails sample_exact) = [url] \<and>
      ''price=0.5'' \<in> set (fragments url) \<and>
      \<not> list_ex (prefix ''minprice='') (fragments url) \<and>
      \<not> list_ex (prefix ''maxprice='') (fragments url))"
proof -
  have h1: "fields_ok sample_exact" by code_simp
  have h2: "map_of (d_multi_input_fields sample_exact) ''price'' = Some ''0.5''" by code_simp
  have h3: "''0.5'' \<noteq> []" by simp
  have h4: "list_all amp_free (concat (map (interpolated sample_exact) param_names))"
    by code_simp
  have h5: "map_of (d_multi_input_min_fields sample_exact) ''price'' = Some ''0&1''"
    "map_of (d_multi_input_max_fields sample_exact) ''price'' = Some ''0.9''"
    by code_simp+
  show ?thesis
    using h1 h2 h4 h5 exact_precedence[OF h1 h2 h3 h4, of sample_lib get_fails] by simp
qed

subsection \<open>Minimum only\<close>

text \<open>
  With the minimum price \<open>2&price=3\<close> and nothing else filled in, the string requested is
  \<open>...?minprice=2&price=3&\<close>, which has the fragment \<open>price=3\<close>.
\<close>

theorem min_only_counterexample:
  "fields_ok amp_in_min \<and>
   map_of (d_multi_input_fields amp_in_min) ''price'' = Some [] \<and>
   map_of (d_multi_input_min_fields amp_in_min) ''price'' = Some ''2&price=3'' \<and>
   map_of (d_multi_input_max_fields amp_in_min) ''price'' = Some [] \<and>
   requested (query_multi sample_lib get_fails amp_in_min) =
     [''http://bored.api.lewagon.com/api/activity/?minprice=2&price=3&''] \<and>
   fragments ''http://bored.api.lewagon.com/api/activity/?minprice=2&price=3&'' =
     [''minprice=2'', ''price=3'', []] \<and>
   sublist ''price='' ''http://bored.api.lewagon.com/api/activity/?minprice=2&price=3&''"
  by code_simp

text \<open>
  C2 (amended). The form is as \<open>__init__\<close> built it, the exact and maximum fields of \<open>name\<close>
  are empty, its minimum field holds the non-empty \<open>v\<close>, and no value the builder puts into
  the string contains the separator \<open>&\<close>. Then \<open>query_multi\<close> requests one URL; the
  fragments of its query part include \<open>minname=v\<close>, and none of them begins with \<open>name=\<close>
  or with \<open>maxname=\<close>.
\<close>

theorem min_only:
  assumes ok: "fields_ok w"
    and ex: "map_of (d_multi_input_fields w) name = Some []"
    and mn: "map_of (d_multi_input_min_fields w) name = Some v" "v \<noteq> []"
    and mx: "map_of (d_multi_input_max_fields w) name = Some []"
    and amp: "list_all amp_free (concat (map (interpolated w) param_names))"
  shows "\<exists>url. requested (query_multi L get w) = [url] \<and>
           ''min'' @ name @ ''='' @ v \<in> set (fragments url) \<and>
           \<not> list_ex (prefix (name @ ''='')) (fragments url) \<and>
           \<not> list_ex (prefix (''max'' @ name @ ''='')) (fragments url)"
proof -
  let ?url = "BORED_API_URL @ ''?'' @ concat (map (contribution w) param_names)"
  have name: "name \<in> set param_names" using ok ex by (rule fields_ok_name)
  have req: "requested (query_multi L get w) = [?url]"
    by (simp add: query_multi_eq[OF ok])
  have frs: "fragments ?url = concat (map (pieces w) param_names) @ [[]]"
    by (rule fragments_multi) (rule amp_free_all_pieces[OF amp])
  have own: "pieces w name = [''min'' @ name @ ''='' @ v]"
    using own_pieces_min(1)[OF name mn(2)] ex mn(1) mx by (simp add: pieces_def text_of_def)
  have mem: "''min'' @ name @ ''='' @ v \<in> set (fragments ?url)"
    unfolding frs using name own by (simp del: append.simps) force
  have noex: "\<not> list_ex (prefix (name @ ''='')) (pieces w n)"
    if "n \<in> set param_names" for n
  proof (cases "n = name")
    case True
    then show ?thesis
      using own own_pieces_min(2)[OF name mn(2)] by (simp del: append.simps)
  next
    case False
    then show ?thesis
      using other_pieces[OF name that] by (simp add: pieces_def del: append.simps)
  qed
  have nomax: "\<not> list_ex (prefix (''max'' @ name @ ''='')) (pieces w n)"
    if "n \<in> set param_names" for n
  proof (cases "n = name")
    case True
    then show ?thesis
      using own own_pieces_min(3)[OF name mn(2)] by (simp del: append.simps)
  next
    case False
    then show ?thesis
      using other_pieces[OF name that] by (simp add: pieces_def del: append.simps)
  qed
  have name_ne: "name \<noteq> []" by (rule param_cases[OF name]) simp_all
  have "\<not> list_ex (prefix (name @ ''='')) (fragments ?url)"
    "\<not> list_ex (prefix (''max'' @ name @ ''='')) (fragments ?url)"
    unfolding frs list_ex_pieces using noex nomax name_ne by (simp_all del: append.simps)
  with req mem show ?thesis by blast
qed

text \<open>An instance: a type and a minimum price.\<close>

theorem min_only_witness:
  "fields_ok sample_min \<and>
   map_of (d_multi_input_fields sample_min) ''price'' = Some [] \<and>
   map_of (d_multi_input_min_fields sample_min) ''price'' = Some ''0.2'' \<and>
   map_of (d_multi_input_max_fields sample_min) ''price'' = Some [] \<and>
   list_all amp_free (concat (map (interpolated sample_min) param_names)) \<and>
   (\<exists>url. requested (query_multi sample_lib get_fails sample_min) = [url] \<and>
      ''minprice=0.2'' \<in> set (fragments url) \<and>
      \<not> list_ex (prefix ''price='') (fragments url) \<and>
      \<not> list_ex (prefix ''maxprice='') (fragments url))"
proof -
  have h1: "fields_ok sample_min" by code_simp
  have h2: "map_of (d_multi_input_fields sample_min) ''price'' = Some []" by code_simp
  have h3: "map_of (d_multi_input_min_fields sample_min) ''price'' = Some ''0.2''" by code_simp
  have h4: "''0.2'' \<noteq> []" by simp
  have h5: "map_of (d_multi_input_max_fields sample_min) ''price'' = Some []" by code_simp
  have h6: "list_all amp_free (concat (map (interpolated sample_min) param_names))"
    by code_simp
  show ?thesis
    using h1 h2 h3 h5 h6 min_only[OF h1 h2 h3 h4 h5 h6, of sample_lib get_fails] by simp
qed


subsection \<open>Reachable forms\<close>

lemma fields_ok_init: "fields_ok init"
  by (simp add: fields_ok_def init_def add_param_entry_def param_names_def)

lemma dict_set_keys: "k \<in> fst ` set d \<Longrightarrow> map fst (dict_set k v d) = map fst d"
  by (induction d) force+

lemma fields_ok_typed:
  assumes "fields_ok w" and "name \<in> set param_names"
  shows "fields_ok (type_exact name t w)" and "fields_ok (type_min name t w)"
    and "fields_ok (type_max name t w)" and "fields_ok (type_key t w)"
proof -
  have "name \<in> fst ` set (d_multi_input_fields w)" "name \<in> fst ` set (d_multi_input_min_fields w)"
    "name \<in> fst ` set (d_multi_input_max_fields w)"
    using assms by (metis fields_ok_def set_map)+
  with assms(1) show "fields_ok (type_exact name t w)" and "fields_ok (type_min name t w)"
    and "fields_ok (type_max name t w)" and "fields_ok (type_key t w)"
    by (simp_all add: fields_ok_def type_exact_def type_min_def type_max_def type_key_def
        dict_set_keys)
qed

lemma clear_loop_keys:
  assumes "clear_loop names w = Inr w'"
  shows "map fst (d_multi_input_fields w') = map fst (d_multi_input_fields w) \<and>
         map fst (d_multi_input_min_fields w') = map fst (d_multi_input_min_fields w) \<and>
         map fst (d_multi_input_max_fields w') = map fst (d_multi_input_max_fields w)"
  using assms
proof (induction names arbitrary: w)
  case Nil
  then show ?case by simp
next
  case (Cons n names)
  from Cons.prems have k: "n \<in> fst ` set (d_multi_input_fields w)"
    "n \<in> fst ` set (d_multi_input_min_fields w)" "n \<in> fst ` set (d_multi_input_max_fields w)"
    by (auto simp: Let_def map_of_eq_None_iff split: if_splits)
  from Cons.prems Cons.IH show ?case
    by (auto simp: Let_def dict_set_keys[OF k(1)] dict_set_keys[OF k(2)] dict_set_keys[OF k(3)]
        split: if_splits)
qed

lemma fields_ok_clear:
  assumes "fields_ok w" and "clear w = Inr w'"
  shows "fields_ok w'"
  using assms clear_loop_keys[of "map fst (d_multi_input_fields w)" "w\<lparr>key_input_field := []\<rparr>" w']
  by (simp add: clear_def fields_ok_def Let_def)

subsection \<open>The executor\<close>

lemma add_rows_output: "output_layout (add_rows L items w) = output_layout w @ rendered L items"
  by (induction L items w rule: add_rows.induct) (simp_all add: rendered_def)

lemma add_rows_fields [simp]:
  "key_input_field (add_rows L items w) = key_input_field w"
  "d_multi_input_fields (add_rows L items w) = d_multi_input_fields w"
  "d_multi_input_min_fields (add_rows L items w) = d_multi_input_min_fields w"
  "d_multi_input_max_fields (add_rows L items w) = d_multi_input_max_fields w"
  by (induction L items w rule: add_rows.induct) simp_all

lemma query_output:
  "output_layout w = output_layout w' \<Longrightarrow>
   output_layout (self (query L get q w)) = output_layout (self (query L get q w'))"
  by (simp add: query_def display_error_def add_rows_output split: option.splits sum.splits)

lemma query_multi_loop_deleted [simp]:
  "query_multi_loop (w\<lparr>deleted := d\<rparr>) ns acc = query_multi_loop w ns acc"
  by (induction ns arbitrary: acc) (simp_all add: Let_def split: option.splits)


lemma fields_ok_query:
  assumes "fields_ok w"
  shows "fields_ok (self (query L get q w))"
  using assms
  by (simp add: query_def fields_ok_def display_error_def split: option.splits sum.splits)

lemma fields_ok_slots:
  assumes "fields_ok w"
  shows "fields_ok (self (query_random L get w))" and "fields_ok (self (query_key L get w))"
    and "fields_ok (self (query_multi L get w))"
proof -
  have c: "fields_ok (cleanup w)" using assms by (simp add: fields_ok_def)
  show "fields_ok (self (query_random L get w))"
    by (simp add: query_random_def fields_ok_query[OF c])
  show "fields_ok (self (query_key L get w))"
    using c by (simp add: query_key_def Let_def fields_ok_query[OF c])
      (simp add: fields_ok_def display_error_def)
  show "fields_ok (self (query_multi L get w))"
    using c by (simp add: query_multi_def Let_def fields_ok_query[OF c] split: sum.splits)
qed



text \<open>
  C4. When the status code of the response is not 200, \<open>_query\<close> appends to the output
  layout the one error label "API request failed: <status>" and returns: nothing is
  raised, and \<open>response.json()\<close> is not called, so a body that is not JSON does no harm.
\<close>

theorem query_failed_status:
  assumes "get q = Some r" and "status_code r \<noteq> 200"
  shows "query L get q w =
         \<lparr>self = display_error (''API request failed: '' @ show_int (status_code r)) w,
          requested = [q], json_called = False, raised = None\<rparr> \<and>
         output_layout (self (query L get q w)) =
           output_layout w @
             [WidgetItem (error_label (''API request failed: '' @ show_int (status_code r)))] \<and>
         self (query L get q w) =
           w\<lparr>output_layout := output_layout w @
               [WidgetItem (error_label (''API request failed: '' @ show_int (status_code r)))]\<rparr> \<and>
         requested (query L get q w) = [q] \<and>
         \<not> json_called (query L get q w) \<and>
         raised (query L get q w) = None"
  using assms by (simp add: query_def display_error_def)

text \<open>
  An instance: status 500 with a body that is not JSON, on a form with the rows of an
  earlier answer. The label is given in full.
\<close>

theorem query_failed_status_witness:
  "get_status 500 BORED_API_URL = Some \<lparr>status_code = 500, json = None\<rparr> \<and>
   query sample_lib (get_status 500) BORED_API_URL sample_stale =
     \<lparr>self = display_error ''API request failed: 500'' sample_stale,
      requested = [BORED_API_URL], json_called = False, raised = None\<rparr> \<and>
   output_layout (self (query sample_lib (get_status 500) BORED_API_URL sample_stale)) =
     [WidgetItem ''activity:'', WidgetItem ''Learn a new language'',
      LayoutItem [WidgetItem ''nested''],
      WidgetItem (''<span style='' @ [CHR 0x27] @ ''color:red;'' @ [CHR 0x27] @
                  ''>ERROR: API request failed: 500</span>'')] \<and>
   requested (query sample_lib (get_status 500) BORED_API_URL sample_stale) = [BORED_API_URL] \<and>
   \<not> json_called (query sample_lib (get_status 500) BORED_API_URL sample_stale) \<and>
   raised (query sample_lib (get_status 500) BORED_API_URL sample_stale) = None"
proof -
  have h1: "get_status 500 BORED_API_URL = Some \<lparr>status_code = 500, json = None\<rparr>"
    by (simp add: get_status_def)
  have h2: "status_code \<lparr>status_code = 500, json = None :: unit pyval option\<rparr> \<noteq> 200" by simp
  have h3: "show_int 500 = ''500''" by code_simp
  have h4: "output_layout sample_stale =
     [WidgetItem ''activity:'', WidgetItem ''Learn a new language'',
      LayoutItem [WidgetItem ''nested'']]" by code_simp
  have h5: "error_label ''API request failed: 500'' =
     ''<span style='' @ [CHR 0x27] @ ''color:red;'' @ [CHR 0x27] @
     ''>ERROR: API request failed: 500</span>''" by code_simp
  show ?thesis
    using h1 h3 h4 h5
      query_failed_status[where get = "get_status 500" and q = BORED_API_URL and L = sample_lib
        and w = sample_stale, OF h1 h2]
    by (simp add: display_error_def)
qed



text \<open>
  C6. When the status code is 200 and the JSON object has no \<open>error\<close> key, or a value under
  it that Python's truth test takes as false (\<open>None\<close>, \<open>False\<close>, zero, an empty string, list
  or dictionary), \<open>_query\<close> raises nothing and appends, for each pair of the object in the
  object's order, the label \<open>key:\<close> and the label of \<open>str(value)\<close>.
\<close>

theorem query_success:
  assumes "get q = Some r" and "status_code r = 200" and "json r = Some (PDict kvs)"
    and "\<not> truthy L (case map_of kvs ''error'' of None \<Rightarrow> PNone | Some v \<Rightarrow> v)"
  shows "raised (query L get q w) = None \<and>
         json_called (query L get q w) \<and>
         output_layout (self (query L get q w)) = output_layout w @ rendered L kvs"
  using assms by (simp add: query_def add_rows_output)

text \<open>
  An instance: the body of the specification's example, with a number added. The null
  under \<open>error\<close> is shown as \<open>None\<close>.
\<close>

theorem query_success_witness:
  "get_json sample_body BORED_API_URL = Some \<lparr>status_code = 200, json = Some sample_body\<rparr> \<and>
   sample_body =
     PDict [(''activity'', PStr ''Learn a new language''), (''type'', PStr ''education''),
            (''participants'', PInt 1), (''error'', PNone)] \<and>
   raised (query sample_lib (get_json sample_body) BORED_API_URL init) = None \<and>
   output_layout (self (query sample_lib (get_json sample_body) BORED_API_URL init)) =
     [WidgetItem ''activity:'', WidgetItem ''Learn a new language'',
      WidgetItem ''type:'', WidgetItem ''education'',
      WidgetItem ''participants:'', WidgetItem ''1'',
      WidgetItem ''error:'', WidgetItem ''None'']"
proof -
  let ?kvs = "[(''activity'', PStr ''Learn a new language''), (''type'', PStr ''education''),
            (''participants'', PInt 1), (''error'', PNone :: unit pyval)]"
  have h1: "get_json sample_body BORED_API_URL = Some \<lparr>status_code = 200, json = Some sample_body\<rparr>"
    by (simp add: get_json_def)
  have h2: "status_code \<lparr>status_code = 200, json = Some sample_body\<rparr> = 200" by simp
  have h3: "json \<lparr>status_code = 200, json = Some sample_body\<rparr> = Some (PDict ?kvs)"
    by (simp add: sample_body_def)
  have h4: "\<not> truthy sample_lib (case map_of ?kvs ''error'' of None \<Rightarrow> PNone | Some v \<Rightarrow> v)"
    by simp
  have h5: "output_layout init = []" by code_simp
  have h6: "rendered sample_lib ?kvs =
     [WidgetItem ''activity:'', WidgetItem ''Learn a new language'',
      WidgetItem ''type:'', WidgetItem ''education'',
      WidgetItem ''participants:'', WidgetItem ''1'',
      WidgetItem ''error:'', WidgetItem ''None'']" by code_simp
  show ?thesis
    using h1 h5 h6
      query_success[where get = "get_json sample_body" and q = BORED_API_URL and L = sample_lib
        and w = init, OF h1 h2 h3 h4]
    by (simp add: sample_body_def)
qed

subsection \<open>The end of the built string\<close>

lemma fields_shape:
  assumes "map fst d = param_names"
  obtains a b c e where
    "d = [(''type'', a), (''participants'', b), (''price'', c), (''accessibility'', e)]"
  using assms by (auto simp: param_names_def map_eq_Cons_conv)

lemma empty_texts:
  assumes "map fst d = param_names" and "n \<in> set param_names"
  shows "list_all (\<lambda>kv. snd kv = []) d \<Longrightarrow> text_of d n = []"
  by (rule fields_shape[OF assms(1)]; rule param_cases[OF assms(2)]) (simp_all add: text_of_def)

lemma nonempty_text:
  assumes "map fst d = param_names" and "\<not> list_all (\<lambda>kv. snd kv = []) d"
  shows "\<exists>n \<in> set param_names. text_of d n \<noteq> []"
  using assms(2)
  by (rule_tac fields_shape[OF assms(1)]) (auto simp: text_of_def param_names_def)

lemma contribution_empty_iff:
  "contribution w n = [] \<longleftrightarrow>
     text_of (d_multi_input_fields w) n = [] \<and> text_of (d_multi_input_min_fields w) n = [] \<and>
     text_of (d_multi_input_max_fields w) n = []"
  by (simp add: contribution_simps)

lemma contribution_last: "contribution w n \<noteq> [] \<Longrightarrow> last (contribution w n) = CHR ''&''"
  by (simp add: contribution_simps split: if_splits)

lemma last_concat:
  assumes "\<forall>x \<in> set xs. x \<noteq> [] \<longrightarrow> last x = c" and "concat xs \<noteq> []"
  shows "last (concat xs) = c"
  using assms
proof (induction xs)
  case Nil
  then show ?case by simp
next
  case (Cons x xs)
  then show ?case by (cases "concat xs = []") (auto simp: last_append)
qed

lemma tail_empty:
  assumes "fields_ok w" and "all_empty w"
  shows "concat (map (contribution w) param_names) = []"
proof -
  have "contribution w n = []" if "n \<in> set param_names" for n
    using assms that by (simp add: contribution_empty_iff fields_ok_def all_empty_def empty_texts)
  then show ?thesis by simp
qed

lemma tail_last:
  assumes "fields_ok w" and "\<not> all_empty w"
  shows "concat (map (contribution w) param_names) \<noteq> [] \<and>
         last (concat (map (contribution w) param_names)) = CHR ''&''"
proof -
  from assms obtain n where n: "n \<in> set param_names" "contribution w n \<noteq> []"
    unfolding fields_ok_def all_empty_def contribution_empty_iff
    using nonempty_text by metis
  then have ne: "concat (map (contribution w) param_names) \<noteq> []" by auto
  have "\<forall>x \<in> set (map (contribution w) param_names). x \<noteq> [] \<longrightarrow> last x = CHR ''&''"
    using contribution_last by auto
  from last_concat[OF this ne] ne show ?thesis by simp
qed

text \<open>
  With every field empty no parameter contributes, and the string requested ends with the
  question mark that \<open>query_multi\<close> writes after the base endpoint, not with \<open>&\<close>.
\<close>

theorem trailing_separator_counterexample:
  "fields_ok init \<and> all_empty init \<and>
   requested (query_multi sample_lib get_fails init) =
     [''http://bored.api.lewagon.com/api/activity/?''] \<and>
   last ''http://bored.api.lewagon.com/api/activity/?'' = CHR ''?'' \<and>
   CHR ''?'' \<noteq> CHR ''&''"
  by code_simp

text \<open>
  C7 (amended). On a form as \<open>__init__\<close> built it, \<open>query_multi\<close> requests one URL. When
  at least one field is not empty, the URL ends with the separator \<open>&\<close>; when every field
  is empty, it is the base endpoint followed by \<open>?\<close>.
\<close>

theorem trailing_separator:
  assumes "fields_ok w"
  shows "\<exists>url. requested (query_multi L get w) = [url] \<and>
           (if all_empty w then url = BORED_API_URL @ ''?'' else last url = CHR ''&'')"
proof (cases "all_empty w")
  case True
  with assms show ?thesis
    by (simp add: query_multi_eq tail_empty)
next
  case False
  with assms tail_last[OF assms False] show ?thesis
    by (simp add: query_multi_eq)
qed

text \<open>Instances: a form with a type and a minimum price, and the empty form.\<close>

theorem trailing_separator_witness:
  "fields_ok sample_min \<and> \<not> all_empty sample_min \<and>
   (\<exists>url. requested (query_multi sample_lib get_fails sample_min) = [url] \<and>
      last url = CHR ''&'') \<and>
   fields_ok init \<and> all_empty init \<and>
   (\<exists>url. requested (query_multi sample_lib get_fails init) = [url] \<and>
      url = ''http://bored.api.lewagon.com/api/activity/?'')"
proof -
  have h1: "fields_ok sample_min" by code_simp
  have h2: "\<not> all_empty sample_min" by code_simp
  have h3: "fields_ok init" by code_simp
  have h4: "all_empty init" by code_simp
  have h5: "BORED_API_URL @ ''?'' = ''http://bored.api.lewagon.com/api/activity/?''" by code_simp
  show ?thesis
    using h1 h2 h3 h4 h5 trailing_separator[OF h1, of sample_lib get_fails]
      trailing_separator[OF h3, of sample_lib get_fails]
    by simp
qed

text \<open>
  C9. On a form as \<open>__init__\<close> built it with every exact, minimum and maximum field empty,
  \<open>query_multi\<close> does what \<open>_query\<close> does on the base endpoint followed by a bare \<open>?\<close>
  after the cleanup: the request is made and no error is shown before it. \<open>query_key\<close> with
  an empty key requests nothing.
\<close>

theorem empty_multi_query:
  assumes "fields_ok w" and "all_empty w"
  shows "query_multi L get w = query L get (BORED_API_URL @ ''?'') (cleanup w) \<and>
         requested (query_multi L get w) = [BORED_API_URL @ ''?''] \<and>
         requested (query_key L get (w\<lparr>key_input_field := []\<rparr>)) = []"
  using assms by (simp add: query_multi_eq tail_empty query_key_def Let_def)

text \<open>An instance: the form as \<open>__init__\<close> leaves it.\<close>

theorem empty_multi_query_witness:
  "fields_ok init \<and> all_empty init \<and>
   BORED_API_URL @ ''?'' = ''http://bored.api.lewagon.com/api/activity/?'' \<and>
   query_multi sample_lib (get_json error_body) init =
     query sample_lib (get_json error_body) (BORED_API_URL @ ''?'') (cleanup init) \<and>
   requested (query_multi sample_lib (get_json error_body) init) = [BORED_API_URL @ ''?''] \<and>
   requested (query_key sample_lib (get_json error_body) (init\<lparr>key_input_field := []\<rparr>)) = []"
proof -
  have h1: "fields_ok init" by code_simp
  have h2: "all_empty init" by code_simp
  have h3: "BORED_API_URL @ ''?'' = ''http://bored.api.lewagon.com/api/activity/?''" by code_simp
  show ?thesis
    using h1 h2 empty_multi_query[OF h1 h2, of sample_lib "get_json error_body"]
    unfolding h3 by simp
qed

text \<open>
  C10. On a form as \<open>__init__\<close> built it, whatever the fields hold, the string
  \<open>query_multi\<close> requests is the base endpoint, \<open>?\<close>, and the contributions of type,
  participants, price and accessibility in this order; the contribution of a parameter
  depends on its own three fields only.
\<close>

theorem parameter_order:
  assumes "fields_ok w"
  shows "requested (query_multi L get w) =
         [BORED_API_URL @ ''?'' @ contribution w ''type'' @ contribution w ''participants'' @
            contribution w ''price'' @ contribution w ''accessibility'']"
  using assms by (simp add: query_multi_eq param_names_def)

text \<open>An instance with fields of all four parameters filled in.\<close>

theorem parameter_order_witness:
  "fields_ok sample_mixed \<and>
   requested (query_multi sample_lib get_fails sample_mixed) =
     [''http://bored.api.lewagon.com/api/activity/?type=recreational&minparticipants=2&maxparticipants=4&maxprice=0.5&accessibility=0.1&'']"
proof -
  have h1: "fields_ok sample_mixed" by code_simp
  have h2: "BORED_API_URL @ ''?'' @ contribution sample_mixed ''type'' @
      contribution sample_mixed ''participants'' @ contribution sample_mixed ''price'' @
      contribution sample_mixed ''accessibility'' =
    ''http://bored.api.lewagon.com/api/activity/?type=recreational&minparticipants=2&maxparticipants=4&maxprice=0.5&accessibility=0.1&''"
    by code_simp
  show ?thesis
    using h1 parameter_order[OF h1, of sample_lib get_fails] unfolding h2 by simp
qed

subsection \<open>Clearing before a query\<close>

lemma cleanup_differs:
  "cleanup w = (cleanup (w\<lparr>output_layout := []\<rparr>))\<lparr>deleted := deleted w @ scheduled (output_layout w)\<rparr>"
  by (simp add: cleanup_eq)

text \<open>
  C8. \<open>_cleanup\<close> leaves the output layout empty and calls \<open>deleteLater\<close> on the labels it
  held, and each of the three slots starts with it: what the output layout holds after a
  slot is what the slot leaves on a widget whose output layout was empty, whatever the
  layout held before.
\<close>

theorem output_cleared:
  "output_layout (cleanup w) = [] \<and>
   deleted (cleanup w) = deleted w @ scheduled (output_layout w) \<and>
   output_layout (self (query_random L get w)) =
     output_layout (self (query_random L get (w\<lparr>output_layout := []\<rparr>))) \<and>
   output_layout (self (query_key L get w)) =
     output_layout (self (query_key L get (w\<lparr>output_layout := []\<rparr>))) \<and>
   output_layout (self (query_multi L get w)) =
     output_layout (self (query_multi L get (w\<lparr>output_layout := []\<rparr>)))"
proof -
  have q: "output_layout (self (query L get u (cleanup w))) =
           output_layout (self (query L get u (cleanup (w\<lparr>output_layout := []\<rparr>))))" for u
    by (rule query_output) simp
  have r: "output_layout (self (query_random L get w)) =
     output_layout (self (query_random L get (w\<lparr>output_layout := []\<rparr>)))"
    by (simp add: query_random_def q)
  have k: "output_layout (self (query_key L get w)) =
     output_layout (self (query_key L get (w\<lparr>output_layout := []\<rparr>)))"
    by (simp add: query_key_def Let_def q display_error_def)
  have l: "query_multi_loop (cleanup w) ns [] =
           query_multi_loop (cleanup (w\<lparr>output_layout := []\<rparr>)) ns []" for ns
    by (subst cleanup_differs) simp
  have m: "output_layout (self (query_multi L get w)) =
     output_layout (self (query_multi L get (w\<lparr>output_layout := []\<rparr>)))"
    by (simp add: query_multi_def Let_def l q split: sum.splits)
  have d: "deleted (cleanup w) = deleted w @ scheduled (output_layout w)"
    by (subst cleanup_eq) simp
  from r k m d show ?thesis by simp
qed

end
